theory Spec2Isabelle
  imports Main "HOL-Library.Word"
begin

unbundle bit_operations_syntax

section \<open>The process and the operating system around it\<close>

text \<open>
  \<^verbatim>\<open>shell.c\<close> is a read-expand-dispatch loop whose every step is a call into the C library.
  The model keeps the control flow of each function of the source and passes the state of
  the process explicitly. What the operating system answers (does an allocation succeed,
  which directories exist, how did the child end) is a parameter of the model, the record
  \<open>world\<close>: each of its fields is asked at the logical time \<open>clock\<close> of the process, so
  the answers may change from one call to the next.
\<close>

type_synonym environ = "string \<rightharpoonup> string"

datatype proc_status =
    Running            \<comment> \<open>the process is executing the code of \<^verbatim>\<open>shell.c\<close>\<close>
  | Exited int         \<comment> \<open>the process has ended with this exit status\<close>
  | Replaced           \<comment> \<open>\<^verbatim>\<open>execvp\<close> succeeded: the (child) process runs another program\<close>

record state =
  env :: environ                    \<comment> \<open>the environment of the process\<close>
  cwd :: string                     \<comment> \<open>the true working directory\<close>
  errno :: int
  clock :: nat                      \<comment> \<open>number of answers taken from the world so far\<close>
  stdout :: "string list"           \<comment> \<open>what each \<^verbatim>\<open>printf\<close> wrote, in order\<close>
  stderr :: "(string \<times> int) list"   \<comment> \<open>message and \<^verbatim>\<open>errnum\<close> of each call of \<^verbatim>\<open>error\<close>\<close>
  ferror :: bool                    \<comment> \<open>the error indicator of \<^verbatim>\<open>stdin\<close>\<close>
  line_frees :: nat                 \<comment> \<open>calls of \<^verbatim>\<open>free(line)\<close>\<close>
  wordfrees :: nat                  \<comment> \<open>calls of \<^verbatim>\<open>wordfree(&p)\<close>\<close>
  status :: proc_status

record world =
  getcwd_fault :: "nat \<Rightarrow> int option"
    \<comment> \<open>a failure of \<^verbatim>\<open>getcwd\<close> that is not about the size of the buffer\<close>
  strdup_fault :: "nat \<Rightarrow> int option"
  setenv_fault :: "nat \<Rightarrow> int option"
    \<comment> \<open>a failure of \<^verbatim>\<open>setenv\<close> on a well-formed name (out of memory)\<close>
  chdir_sys :: "nat \<Rightarrow> string \<Rightarrow> string \<Rightarrow> int + string"
    \<comment> \<open>from the working directory and the target: the \<^verbatim>\<open>errno\<close>, or the new directory\<close>
  wordexp_sys :: "nat \<Rightarrow> 32 word \<Rightarrow> environ \<Rightarrow> string \<Rightarrow> int \<times> string list"
    \<comment> \<open>from the flags, the environment and the line: the return code and the words\<close>
  fork_sys :: "nat \<Rightarrow> int + int"
    \<comment> \<open>the \<^verbatim>\<open>errno\<close>, or what \<^verbatim>\<open>fork\<close> returns (0 says: this is the child)\<close>
  execvp_sys :: "nat \<Rightarrow> string \<Rightarrow> string list \<Rightarrow> int option"
    \<comment> \<open>the \<^verbatim>\<open>errno\<close>, or \<open>None\<close> when the program image was replaced\<close>
  waitpid_sys :: "nat \<Rightarrow> int \<Rightarrow> int + 32 word"
    \<comment> \<open>the \<^verbatim>\<open>errno\<close>, or the wait status of the child\<close>
  strsignal :: "int \<Rightarrow> string"

definition tick :: "state \<Rightarrow> state" where
  "tick s = s\<lparr>clock := Suc (clock s)\<rparr>"

subsection \<open>Constants of the C library (glibc on Linux)\<close>

definition EXIT_FAILURE :: int where "EXIT_FAILURE = 1"
definition ENOMEM :: int where "ENOMEM = 12"
definition EINVAL :: int where "EINVAL = 22"
definition ERANGE :: int where "ERANGE = 34"

text \<open>\<^verbatim>\<open><wordexp.h>\<close>: the flag bits and the return codes.\<close>

definition WRDE_DOOFFS :: "32 word" where "WRDE_DOOFFS = push_bit 0 1"
definition WRDE_APPEND :: "32 word" where "WRDE_APPEND = push_bit 1 1"
definition WRDE_NOCMD :: "32 word" where "WRDE_NOCMD = push_bit 2 1"
definition WRDE_REUSE :: "32 word" where "WRDE_REUSE = push_bit 3 1"
definition WRDE_SHOWERR :: "32 word" where "WRDE_SHOWERR = push_bit 4 1"
definition WRDE_UNDEF :: "32 word" where "WRDE_UNDEF = push_bit 5 1"

definition WRDE_NOSPACE :: int where "WRDE_NOSPACE = 1"
definition WRDE_BADCHAR :: int where "WRDE_BADCHAR = 2"
definition WRDE_BADVAL :: int where "WRDE_BADVAL = 3"
definition WRDE_CMDSUB :: int where "WRDE_CMDSUB = 4"
definition WRDE_SYNTAX :: int where "WRDE_SYNTAX = 5"

text \<open>\<^verbatim>\<open><sys/wait.h>\<close>: how a wait status (a C \<^verbatim>\<open>int\<close>) is decoded.\<close>

definition WTERMSIG :: "32 word \<Rightarrow> 32 word" where
  "WTERMSIG wstatus = wstatus AND 0x7f"

definition WEXITSTATUS :: "32 word \<Rightarrow> 32 word" where
  "WEXITSTATUS wstatus = drop_bit 8 (wstatus AND 0xff00)"

definition WIFEXITED :: "32 word \<Rightarrow> bool" where
  "WIFEXITED wstatus = (WTERMSIG wstatus = 0)"

definition WIFSIGNALED :: "32 word \<Rightarrow> bool" where
  "WIFSIGNALED wstatus =
     (0 < sint (signed_drop_bit 1 (ucast ((wstatus AND 0x7f) + 1) :: 8 word)))"

subsection \<open>The C library calls the source makes\<close>

text \<open>
  \<^verbatim>\<open>error(status, errnum, format, ...)\<close> of \<^verbatim>\<open><error.h>\<close> writes the message to standard
  error and, when \<open>status\<close> is not 0, ends the process with that exit status.
\<close>

definition error :: "int \<Rightarrow> int \<Rightarrow> string \<Rightarrow> state \<Rightarrow> state" where
  "error st errnum msg s =
     (let s' = s\<lparr>stderr := stderr s @ [(msg, errnum)]\<rparr>
      in if st \<noteq> 0 then s'\<lparr>status := Exited st\<rparr> else s')"

definition printf :: "string \<Rightarrow> state \<Rightarrow> state" where
  "printf str s = s\<lparr>stdout := stdout s @ [str]\<rparr>"

text \<open>The conversion \<^verbatim>\<open>%d\<close>.\<close>

fun show_nat :: "nat \<Rightarrow> string" where
  "show_nat n =
     (if n < 10 then [''0123456789'' ! n]
      else show_nat (n div 10) @ [''0123456789'' ! (n mod 10)])"

declare show_nat.simps [simp del]

definition show_int :: "int \<Rightarrow> string" where
  "show_int i = (if i < 0 then CHR ''-'' # show_nat (nat (- i)) else show_nat (nat i))"

text \<open>
  \<^verbatim>\<open>getcwd(buf, size)\<close>: the path when it fits the buffer with its terminator, \<open>ERANGE\<close>
  when it does not. After a failure the content of the buffer is undefined; the model
  leaves it empty, and \<open>prompt\<close> overwrites it.
\<close>

definition getcwd :: "world \<Rightarrow> nat \<Rightarrow> state \<Rightarrow> string option \<times> state" where
  "getcwd w sz s =
     (case getcwd_fault w (clock s) of
        Some e \<Rightarrow> (None, (tick s)\<lparr>errno := e\<rparr>)
      | None \<Rightarrow>
          if sz < length (cwd s) + 1 then (None, (tick s)\<lparr>errno := ERANGE\<rparr>)
          else (Some (cwd s), tick s))"

definition strdup :: "world \<Rightarrow> string \<Rightarrow> state \<Rightarrow> string option \<times> state" where
  "strdup w str s =
     (case strdup_fault w (clock s) of
        Some e \<Rightarrow> (None, (tick s)\<lparr>errno := e\<rparr>)
      | None \<Rightarrow> (Some str, tick s))"

text \<open>
  \<^verbatim>\<open>strsep(&value, delim)\<close>: the token before the first delimiter, and the rest after it
  (\<open>None\<close> is the null pointer: no delimiter was found).
\<close>

fun strsep :: "string \<Rightarrow> string \<Rightarrow> string \<times> string option" where
  "strsep [] delim = ([], None)"
| "strsep (c # cs) delim =
     (if c \<in> set delim then ([], Some cs)
      else case strsep cs delim of (tok, rest) \<Rightarrow> (c # tok, rest))"

text \<open>
  \<^verbatim>\<open>setenv\<close> and \<^verbatim>\<open>unsetenv\<close> refuse a name that is empty or contains \<open>=\<close> with
  \<open>EINVAL\<close>; \<^verbatim>\<open>setenv\<close> can also run out of memory.
\<close>

definition setenv :: "world \<Rightarrow> string \<Rightarrow> string \<Rightarrow> bool \<Rightarrow> state \<Rightarrow> int \<times> state" where
  "setenv w name val overwrite s =
     (if name = [] \<or> CHR ''='' \<in> set name then (- 1, s\<lparr>errno := EINVAL\<rparr>)
      else case setenv_fault w (clock s) of
        Some e \<Rightarrow> (- 1, (tick s)\<lparr>errno := e\<rparr>)
      | None \<Rightarrow>
          (0, (tick s)\<lparr>env := (if overwrite \<or> env s name = None
                                 then (env s)(name \<mapsto> val) else env s)\<rparr>))"

definition unsetenv :: "string \<Rightarrow> state \<Rightarrow> int \<times> state" where
  "unsetenv name s =
     (if name = [] \<or> CHR ''='' \<in> set name then (- 1, s\<lparr>errno := EINVAL\<rparr>)
      else (0, s\<lparr>env := (env s)(name := None)\<rparr>))"

definition getenv :: "string \<Rightarrow> state \<Rightarrow> string option" where
  "getenv name s = env s name"

definition chdir :: "world \<Rightarrow> string \<Rightarrow> state \<Rightarrow> int \<times> state" where
  "chdir w dir s =
     (case chdir_sys w (clock s) (cwd s) dir of
        Inl e \<Rightarrow> (- 1, (tick s)\<lparr>errno := e\<rparr>)
      | Inr d \<Rightarrow> (0, (tick s)\<lparr>cwd := d\<rparr>))"

definition fork :: "world \<Rightarrow> state \<Rightarrow> int \<times> state" where
  "fork w s =
     (case fork_sys w (clock s) of
        Inl e \<Rightarrow> (- 1, (tick s)\<lparr>errno := e\<rparr>)
      | Inr pid \<Rightarrow> (pid, tick s))"

definition waitpid :: "world \<Rightarrow> int \<Rightarrow> state \<Rightarrow> (int \<times> 32 word) \<times> state" where
  "waitpid w pid s =
     (case waitpid_sys w (clock s) pid of
        Inl e \<Rightarrow> ((- 1, 0), (tick s)\<lparr>errno := e\<rparr>)
      | Inr wstatus \<Rightarrow> ((pid, wstatus), tick s))"

definition wordexp :: "world \<Rightarrow> string \<Rightarrow> 32 word \<Rightarrow> state \<Rightarrow> (int \<times> string list) \<times> state" where
  "wordexp w line flags s = (wordexp_sys w (clock s) flags (env s) line, tick s)"

text \<open>A C string ends at its first NUL byte.\<close>

definition cstr :: "string \<Rightarrow> string" where
  "cstr buf = takeWhile (\<lambda>c. c \<noteq> CHR 0x00) buf"

section \<open>The functions of \<^verbatim>\<open>shell.c\<close>\<close>

definition MAX_PATH_AT_PROMPT :: nat where "MAX_PATH_AT_PROMPT = 256"

subsection \<open>\<^verbatim>\<open>strlcpy\<close>\<close>

fun strlcpy_loop :: "string \<Rightarrow> nat \<Rightarrow> string" where
  "strlcpy_loop [] sz = []"
| "strlcpy_loop (c # src) sz =
     (if sz > 1 then c # strlcpy_loop src (sz - 1) else [])"

definition strlcpy :: "string \<Rightarrow> string \<Rightarrow> nat \<Rightarrow> string \<times> nat" where
  "strlcpy dst src sz =
     (let src_len = length src
      in ((if sz \<noteq> 0 then strlcpy_loop src sz else dst), src_len))"

subsection \<open>\<^verbatim>\<open>prompt\<close>\<close>

definition prompt_top :: "string \<Rightarrow> string" where
  "prompt_top label = [CHR 0xE2, CHR 0x94, CHR 0x8C] @ ''['' @ label @ '']'' @ [CHR 0x0A]"

definition prompt_bottom :: string where
  "prompt_bottom = [CHR 0xE2, CHR 0x94, CHR 0x94, CHR 0xE2, CHR 0x94, CHR 0x80] @ ''> ''"

definition prompt :: "world \<Rightarrow> state \<Rightarrow> state" where
  "prompt w s =
     (case getcwd w MAX_PATH_AT_PROMPT s of
        (Some path, s1) \<Rightarrow> printf prompt_bottom (printf (prompt_top path) s1)
      | (None, s1) \<Rightarrow>
          if errno s1 = ERANGE then
            (let label = fst (strlcpy [] ''!Path too long to be shown!'' MAX_PATH_AT_PROMPT)
             in printf prompt_bottom (printf (prompt_top label) s1))
          else
            (let s2 = error 0 (errno s1) ''Couldn't get cwd'' s1;
                 label = fst (strlcpy [] ''!Failed to get CWD!'' MAX_PATH_AT_PROMPT)
             in printf prompt_bottom (printf (prompt_top label) s2)))"

subsection \<open>\<^verbatim>\<open>do_export\<close>\<close>

text \<open>The body of the loop, for one argument (lines 43 to 54).\<close>

definition export_arg :: "world \<Rightarrow> string \<Rightarrow> state \<Rightarrow> state" where
  "export_arg w arg s =
     (case strdup w arg s of
        (None, s1) \<Rightarrow> error EXIT_FAILURE (errno s1) ''Couldn't copy a string'' s1
      | (Some to_free, s1) \<Rightarrow>
          (case strsep to_free ''='' of
             (key, None) \<Rightarrow> s1
           | (key, Some val) \<Rightarrow>
               (case setenv w key val True s1 of
                  (r, s2) \<Rightarrow>
                    if r = - 1 then error 0 (errno s2) (''Couldn't set '' @ arg) s2
                    else s2)))"

text \<open>A process that has ended runs no further iteration.\<close>

fun do_export :: "world \<Rightarrow> string list \<Rightarrow> state \<Rightarrow> state" where
  "do_export w [] s = s"
| "do_export w (arg # argv) s =
     (let s' = export_arg w arg s
      in if status s' \<noteq> Running then s' else do_export w argv s')"

subsection \<open>\<^verbatim>\<open>do_unset\<close>\<close>

definition unset_arg :: "string \<Rightarrow> state \<Rightarrow> state" where
  "unset_arg arg s =
     (case unsetenv arg s of
        (r, s1) \<Rightarrow>
          if r = - 1 then error 0 (errno s1) (''Couldn't unset '' @ arg) s1 else s1)"

fun do_unset :: "string list \<Rightarrow> state \<Rightarrow> state" where
  "do_unset [] s = s"
| "do_unset (arg # argv) s = do_unset argv (unset_arg arg s)"

subsection \<open>\<^verbatim>\<open>do_cd\<close>\<close>

text \<open>Lines 77 to 83: \<open>dir\<close> is chosen, \<open>argv\<close> points behind the argument used.\<close>

definition cd_to :: "world \<Rightarrow> string \<Rightarrow> string list \<Rightarrow> state \<Rightarrow> state" where
  "cd_to w dir argv s =
     (if argv \<noteq> [] then error 0 0 ''Too many arguments'' s
      else case chdir w dir s of
        (r, s1) \<Rightarrow>
          if r = - 1 then error 0 (errno s1) (''Couldn't cd to '' @ dir) s1 else s1)"

fun do_cd :: "world \<Rightarrow> string list \<Rightarrow> state \<Rightarrow> state" where
  "do_cd w [] s =
     (case getenv ''HOME'' s of
        None \<Rightarrow> error 0 0 ''HOME not set'' s
      | Some dir \<Rightarrow> cd_to w dir [] s)"
| "do_cd w (arg # argv) s = cd_to w arg argv s"

subsection \<open>\<^verbatim>\<open>launch\<close>\<close>

text \<open>Lines 104 to 110: the parent reports how the child ended.\<close>

definition report :: "world \<Rightarrow> 32 word \<Rightarrow> state \<Rightarrow> state" where
  "report w wstatus s =
     (if WIFEXITED wstatus then
        printf (''Process exited with error code '' @ show_int (sint (WEXITSTATUS wstatus))
                @ [CHR 0x0A]) s
      else if WIFSIGNALED wstatus then
        printf (''Process was terminated by signal '' @ show_int (sint (WTERMSIG wstatus))
                @ '': '' @ strsignal w (sint (WTERMSIG wstatus)) @ [CHR 0x0A]) s
      else
        error EXIT_FAILURE 0
          ''waitpid should have waited for the process termination, but it didn't'' s)"

definition launch :: "world \<Rightarrow> string \<Rightarrow> string list \<Rightarrow> state \<Rightarrow> state" where
  "launch w program argv s =
     (case fork w s of
        (pid, s1) \<Rightarrow>
          if pid = - 1 then error 0 (errno s1) ''Failed to fork'' s1
          else if pid = 0 then
            (case execvp_sys w (clock s1) program argv of
               Some e \<Rightarrow>
                 error EXIT_FAILURE e (''Failed to exec '' @ program) ((tick s1)\<lparr>errno := e\<rparr>)
             | None \<Rightarrow> (tick s1)\<lparr>status := Replaced\<rparr>)
          else
            (case waitpid w pid s1 of
               ((r, wstatus), s2) \<Rightarrow>
                 if r = - 1 then
                   error 0 (errno s2) (''Failed to wait for child '' @ show_int pid) s2
                 else report w wstatus s2))"

subsection \<open>\<^verbatim>\<open>trim_newline\<close>\<close>

definition trim_newline :: "string \<Rightarrow> string" where
  "trim_newline line =
     (if length line \<le> 0 then line
      else if line ! (length line - 1) = CHR 0x0A then take (length line - 1) line
      else line)"

subsection \<open>\<^verbatim>\<open>main\<close>\<close>

text \<open>The flags of the call of \<^verbatim>\<open>wordexp\<close> in the loop (line 139).\<close>

definition wordexp_flags :: "32 word" where
  "wordexp_flags = WRDE_REUSE OR WRDE_SHOWERR OR WRDE_UNDEF"

datatype flow =
    Continue    \<comment> \<open>go on with the next iteration\<close>
  | Break       \<comment> \<open>leave the loop\<close>

text \<open>Lines 161 to 175: the expanded words are dispatched.\<close>

definition dispatch :: "world \<Rightarrow> string list \<Rightarrow> state \<Rightarrow> flow \<times> state" where
  "dispatch w wordv s =
     (if length wordv = 0 then (Continue, s)
      else
        let action = wordv ! 0 in
        if ''export'' = action then (Continue, do_export w (drop 1 wordv) s)
        else if ''unset'' = action then (Continue, do_unset (drop 1 wordv) s)
        else if ''exit'' = action then (Break, s)
        else if ''cd'' = action then (Continue, do_cd w (drop 1 wordv) s)
        else (Continue, launch w (wordv ! 0) wordv s))"

text \<open>Lines 138 to 175: what the loop does with a line that \<^verbatim>\<open>getline\<close> returned.\<close>

definition process_line :: "world \<Rightarrow> string \<Rightarrow> state \<Rightarrow> flow \<times> state" where
  "process_line w raw s =
     (case wordexp w (cstr (trim_newline raw)) wordexp_flags s of
        ((ec, wordv), s1) \<Rightarrow>
          if ec = 0 then dispatch w wordv s1
          else if ec = WRDE_BADCHAR then
            (Continue, error 0 0
               ''Illegal occurrence of newline or one of |, &, ;, <, >, (, ), {, }.'' s1)
          else if ec = WRDE_BADVAL then
            (Continue, error 0 0 ''Undefined shell variable was referenced'' s1)
          else if ec = WRDE_CMDSUB then
            (Continue, error 0 0 ''Command line substitution is prohibited'' s1)
          else if ec = WRDE_NOSPACE then
            (Continue, error 0 0 ''Out of memory'' s1)
          else if ec = WRDE_SYNTAX then
            (Continue, error 0 0
               ''Syntax error: unbalanced parentheses, unmatched quotes etc'' s1)
          else
            (Continue, error EXIT_FAILURE 0
               (''Unexpected wordexp error code: '' @ show_int ec) s1))"

text \<open>
  What \<^verbatim>\<open>getline\<close> returns, one entry per call: the bytes of a line (with its newline, when it
  has one), or -1 at the end of the input, or -1 with the error indicator of the stream
  set. A stream with no entry left is at its end.
\<close>

datatype getline_ret = Line string | Eof | ReadError int

fun main_loop :: "world \<Rightarrow> getline_ret list \<Rightarrow> state \<Rightarrow> state" where
  "main_loop w [] s = printf [CHR 0x0A] (prompt w s)"
| "main_loop w (Eof # rest) s = printf [CHR 0x0A] (prompt w s)"
| "main_loop w (ReadError e # rest) s =
     printf [CHR 0x0A] ((prompt w s)\<lparr>ferror := True, errno := e\<rparr>)"
| "main_loop w (Line raw # rest) s =
     (case process_line w raw (prompt w s) of
        (fl, s') \<Rightarrow>
          if status s' \<noteq> Running then s'
          else if fl = Break then s'
          else main_loop w rest s')"

text \<open>Lines 177 to 182, reached when the loop was left by \<^verbatim>\<open>break\<close>.\<close>

definition main_end :: "state \<Rightarrow> state" where
  "main_end s =
     (if status s \<noteq> Running then s
      else if ferror s then error EXIT_FAILURE (errno s) ''Failed to read next line'' s
      else s\<lparr>wordfrees := Suc (wordfrees s), line_frees := Suc (line_frees s),
              status := Exited 0\<rparr>)"

definition process_start :: "environ \<Rightarrow> string \<Rightarrow> state" where
  "process_start e d =
     \<lparr>env = e, cwd = d, errno = 0, clock = 0, stdout = [], stderr = [], ferror = False,
      line_frees = 0, wordfrees = 0, status = Running\<rparr>"

definition main :: "world \<Rightarrow> getline_ret list \<Rightarrow> environ \<Rightarrow> string \<Rightarrow> state" where
  "main w input e d =
     main_end (main_loop w input (snd (wordexp w [] 0 (process_start e d))))"

section \<open>A world for the worked examples\<close>

text \<open>
  The examples below run the functions in a small world: no allocation fails, three
  directories exist, every child ends with exit status 0. Its \<^verbatim>\<open>wordexp\<close> splits a line at
  blanks; for the two lines with a command substitution it answers as the C library does,
  \<open>WRDE_CMDSUB\<close> when the flag \<open>WRDE_NOCMD\<close> is set and the expanded words otherwise.
\<close>

definition ENOENT :: int where "ENOENT = 2"

fun tokens :: "string \<Rightarrow> string \<Rightarrow> string list" where
  "tokens acc [] = (if acc = [] then [] else [acc])"
| "tokens acc (c # cs) =
     (if c = CHR '' '' then (if acc = [] then tokens [] cs else acc # tokens [] cs)
      else tokens (acc @ [c]) cs)"

definition calm_wordexp :: "nat \<Rightarrow> 32 word \<Rightarrow> environ \<Rightarrow> string \<Rightarrow> int \<times> string list" where
  "calm_wordexp t flags e line =
     (if line = ''echo $(id -u)'' \<or> line = [CHR ''e'', CHR ''c'', CHR ''h'', CHR ''o'', CHR '' '',
                                            CHR 0x60, CHR ''i'', CHR ''d'', CHR '' '', CHR ''-'',
                                            CHR ''u'', CHR 0x60]
      then (if flags AND WRDE_NOCMD = 0 then (0, [''echo'', ''1000'']) else (WRDE_CMDSUB, []))
      else (0, tokens [] line))"

definition calm_world :: world where
  "calm_world =
     \<lparr>getcwd_fault = (\<lambda>t. None),
      strdup_fault = (\<lambda>t. None),
      setenv_fault = (\<lambda>t. None),
      chdir_sys = (\<lambda>t from dir.
         if dir = ''/'' \<or> dir = ''/tmp'' \<or> dir = ''/home/kid'' then Inr dir else Inl ENOENT),
      wordexp_sys = calm_wordexp,
      fork_sys = (\<lambda>t. Inr 4242),
      execvp_sys = (\<lambda>t program argv. Some ENOENT),
      waitpid_sys = (\<lambda>t pid. Inr 0),
      strsignal = (\<lambda>sig. if sig = 15 then ''Terminated'' else ''Unknown signal'')\<rparr>"

definition kid_env :: environ where
  "kid_env = [''HOME'' \<mapsto> ''/home/kid'', ''FOO'' \<mapsto> ''old'']"

definition s0 :: state where
  "s0 = process_start kid_env ''/tmp''"

section \<open>Auxiliary facts\<close>

lemmas call_defs = tick_def error_def printf_def getcwd_def strdup_def setenv_def unsetenv_def
  getenv_def chdir_def fork_def waitpid_def wordexp_def

lemma strlcpy_loop_take: "strlcpy_loop src sz = take (sz - 1) src"
proof (induction src arbitrary: sz)
  case Nil
  show ?case by simp
next
  case (Cons c src)
  show ?case
  proof (cases "sz > 1")
    case True
    then obtain m where m: "sz - 1 = Suc m" by (cases "sz - 1") auto
    with True Cons show ?thesis by simp
  next
    case False
    then show ?thesis by simp
  qed
qed

lemma strlcpy_fits:
  "sz \<noteq> 0 \<Longrightarrow> length src < sz \<Longrightarrow> fst (strlcpy dst src sz) = src"
  by (simp add: strlcpy_def strlcpy_loop_take)

lemma prompt_frame:
  "env (prompt w s) = env s" "cwd (prompt w s) = cwd s" "status (prompt w s) = status s"
  "ferror (prompt w s) = ferror s" "line_frees (prompt w s) = line_frees s"
  "wordfrees (prompt w s) = wordfrees s" "clock (prompt w s) = Suc (clock s)"
  by (simp_all add: prompt_def call_defs Let_def split: option.splits)

lemma placeholder_fits:
  "fst (strlcpy dst ''!Path too long to be shown!'' MAX_PATH_AT_PROMPT) = ''!Path too long to be shown!''"
  "fst (strlcpy dst ''!Failed to get CWD!'' MAX_PATH_AT_PROMPT) = ''!Failed to get CWD!''"
  by (rule strlcpy_fits; simp add: MAX_PATH_AT_PROMPT_def)+

lemma prompt_label:
  "\<exists>label. (label = cwd s \<or> label = ''!Path too long to be shown!'' \<or>
            label = ''!Failed to get CWD!'') \<and>
     stdout (prompt w s) = stdout s @ [prompt_top label, prompt_bottom]"
proof (cases "getcwd w MAX_PATH_AT_PROMPT s")
  case (Pair r s1)
  then have s1: "stdout s1 = stdout s" "r = None \<or> r = Some (cwd s)"
    by (auto simp add: call_defs split: option.splits if_splits)
  show ?thesis
  proof (cases r)
    case None
    with Pair s1 show ?thesis
      by (cases "errno s1 = ERANGE") (auto simp add: prompt_def placeholder_fits printf_def error_def)
  next
    case (Some path)
    with Pair s1 show ?thesis
      by (auto simp add: prompt_def printf_def)
  qed
qed

lemma main_end_break:
  "status s = Running \<Longrightarrow> \<not> ferror s \<Longrightarrow>
   main_end s = s\<lparr>wordfrees := Suc (wordfrees s), line_frees := Suc (line_frees s),
                  status := Exited 0\<rparr>"
  by (simp add: main_end_def)

lemma main_loop_eof:
  "inp = [] \<or> inp = Eof # rest \<Longrightarrow> main_loop w inp s = printf [CHR 0x0A] (prompt w s)"
  by auto

section \<open>The command dispatcher\<close>

text \<open>
  C5. The words that \<^verbatim>\<open>wordexp\<close> returns with code 0 are what the loop dispatches. An
  empty word sequence is not dispatched and the loop takes its next iteration. Otherwise
  the first word is compared, byte for byte, with \<open>export\<close>, \<open>unset\<close>, \<open>exit\<close> and
  \<open>cd\<close>; any other first word is launched as a program, with the first word as the
  program name and the whole word sequence as its argument vector.
\<close>

theorem dispatch_routes:
  "dispatch w [] s = (Continue, s) \<and>
   (status s = Running \<and>
    wordexp_sys w (clock (prompt w s)) wordexp_flags (env s) (cstr (trim_newline raw)) = (0, []) \<longrightarrow>
      main_loop w (Line raw # rest) s = main_loop w rest (tick (prompt w s))) \<and>
   dispatch w (''export'' # args) s = (Continue, do_export w args s) \<and>
   dispatch w (''unset'' # args) s = (Continue, do_unset args s) \<and>
   dispatch w (''exit'' # args) s = (Break, s) \<and>
   dispatch w (''cd'' # args) s = (Continue, do_cd w args s) \<and>
   (a \<notin> set [''export'', ''unset'', ''exit'', ''cd''] \<longrightarrow>
      dispatch w (a # args) s = (Continue, launch w a (a # args) s)) \<and>
   (wordexp_sys w (clock s) wordexp_flags (env s) (cstr (trim_newline raw)) = (0, wordv) \<longrightarrow>
      process_line w raw s = dispatch w wordv (tick s)) \<and>
   (wordexp_sys w (clock s) wordexp_flags (env s) (cstr (trim_newline raw)) = (0, a # args) \<and>
    a \<notin> set [''export'', ''unset'', ''exit'', ''cd''] \<longrightarrow>
      process_line w raw s = (Continue, launch w a (a # args) (tick s))) \<and>
   (status s = Running \<and>
    wordexp_sys w (clock (prompt w s)) wordexp_flags (env s) (cstr (trim_newline raw)) =
      (0, wordv) \<longrightarrow>
      main_loop w (Line raw # rest) s =
        (case dispatch w wordv (tick (prompt w s)) of
           (fl, s') \<Rightarrow>
             if status s' \<noteq> Running then s'
             else if fl = Break then s'
             else main_loop w rest s'))"
proof -
  have empty: "dispatch w [] s = (Continue, s)"
    by (simp add: dispatch_def)
  have again: "main_loop w (Line raw # rest) s = main_loop w rest (tick (prompt w s))"
    if "status s = Running"
      and "wordexp_sys w (clock (prompt w s)) wordexp_flags (env s) (cstr (trim_newline raw)) = (0, [])"
    using that by (simp add: process_line_def wordexp_def dispatch_def prompt_frame tick_def)
  have builtins:
    "dispatch w (''export'' # args) s = (Continue, do_export w args s)"
    "dispatch w (''unset'' # args) s = (Continue, do_unset args s)"
    "dispatch w (''exit'' # args) s = (Break, s)"
    "dispatch w (''cd'' # args) s = (Continue, do_cd w args s)"
    by (simp_all add: dispatch_def)
  have other: "dispatch w (a # args) s' = (Continue, launch w a (a # args) s')"
    if "a \<notin> set [''export'', ''unset'', ''exit'', ''cd'']" for s'
    using that by (auto simp add: dispatch_def Let_def)
  have handed: "process_line w raw s' = dispatch w ws (tick s')"
    if "wordexp_sys w (clock s') wordexp_flags (env s') (cstr (trim_newline raw)) = (0, ws)"
    for s' ws
    using that by (simp add: process_line_def wordexp_def)
  have launched: "process_line w raw s = (Continue, launch w a (a # args) (tick s))"
    if "wordexp_sys w (clock s) wordexp_flags (env s) (cstr (trim_newline raw)) = (0, a # args)"
      and "a \<notin> set [''export'', ''unset'', ''exit'', ''cd'']"
    using handed [OF that(1)] other [OF that(2)] by simp
  have looped: "main_loop w (Line raw # rest) s =
        (case dispatch w wordv (tick (prompt w s)) of
           (fl, s') \<Rightarrow>
             if status s' \<noteq> Running then s'
             else if fl = Break then s'
             else main_loop w rest s')"
    if "status s = Running"
      and "wordexp_sys w (clock (prompt w s)) wordexp_flags (env s) (cstr (trim_newline raw)) =
        (0, wordv)"
  proof -
    from that(2) have "wordexp_sys w (clock (prompt w s)) wordexp_flags (env (prompt w s))
        (cstr (trim_newline raw)) = (0, wordv)"
      by (simp add: prompt_frame)
    then have "process_line w raw (prompt w s) = dispatch w wordv (tick (prompt w s))"
      by (rule handed)
    then show ?thesis
      by simp
  qed
  from empty again builtins other [of s] handed [of s wordv] launched looped
  show ?thesis by blast
qed

text \<open>
  A line of blanks is expanded to no word and the loop goes on; \<open>EXIT\<close> in capitals is
  not the builtin: the line \<open>EXIT now\<close> is expanded to two words and the loop launches
  \<open>EXIT\<close> with both of them, and the line \<open>exit now\<close> leaves the loop.
\<close>

theorem dispatch_routes_witness:
  "dispatch calm_world [] s0 = (Continue, s0) \<and>
   main_loop calm_world [Line ''   \<newline>''] s0 = main_loop calm_world [] (tick (prompt calm_world s0)) \<and>
   dispatch calm_world [''exit'', ''now''] s0 = (Break, s0) \<and>
   dispatch calm_world [''EXIT'', ''now''] s0 =
     (Continue, launch calm_world ''EXIT'' [''EXIT'', ''now''] s0) \<and>
   process_line calm_world ''EXIT now\<newline>'' s0 =
     (Continue, launch calm_world ''EXIT'' [''EXIT'', ''now''] (tick s0)) \<and>
   process_line calm_world ''exit now\<newline>'' s0 = (Break, tick s0) \<and>
   main_loop calm_world [Line ''exit now\<newline>'', Line ''ls\<newline>''] s0 =
     tick (prompt calm_world s0)"
proof -
  have run: "status s0 = Running"
    by (simp add: s0_def process_start_def)
  have blank: "wordexp_sys calm_world (clock (prompt calm_world s0)) wordexp_flags (env s0)
      (cstr (trim_newline ''   \<newline>'')) = (0, [])"
    by (simp add: calm_world_def calm_wordexp_def cstr_def trim_newline_def)
  have other: "''EXIT'' \<notin> set [''export'', ''unset'', ''exit'', ''cd'']"
    by simp
  have upper: "wordexp_sys calm_world t wordexp_flags en (cstr (trim_newline ''EXIT now\<newline>'')) =
      (0, [''EXIT'', ''now''])"
    and lower: "wordexp_sys calm_world t wordexp_flags en (cstr (trim_newline ''exit now\<newline>'')) =
      (0, [''exit'', ''now''])" for t en
    by (simp_all add: calm_world_def calm_wordexp_def cstr_def trim_newline_def)
  note blank_line = dispatch_routes [where w = calm_world and s = s0 and raw = "''   \<newline>''"
      and rest = "[]" and args = "[''now'']" and a = "''EXIT''" and wordv = "[]"]
  note upper_line = dispatch_routes [where w = calm_world and s = s0 and raw = "''EXIT now\<newline>''"
      and rest = "[]" and args = "[''now'']" and a = "''EXIT''" and wordv = "[''EXIT'', ''now'']"]
  note lower_line = dispatch_routes [where w = calm_world and s = s0 and raw = "''exit now\<newline>''"
      and rest = "[Line ''ls\<newline>'']" and args = "[''now'']" and a = "''EXIT''"
      and wordv = "[''exit'', ''now'']"]
  have c1: "dispatch calm_world [] s0 = (Continue, s0)"
    using blank_line by blast
  have c2: "main_loop calm_world [Line ''   \<newline>''] s0 =
      main_loop calm_world [] (tick (prompt calm_world s0))"
    using blank_line run blank by blast
  have c3: "dispatch calm_world [''exit'', ''now''] s = (Break, s)" for s
    using dispatch_routes [where w = calm_world and s = s and args = "[''now'']"] by blast
  have c4: "dispatch calm_world [''EXIT'', ''now''] s0 =
     (Continue, launch calm_world ''EXIT'' [''EXIT'', ''now''] s0)"
    using blank_line other by blast
  have c5: "process_line calm_world ''EXIT now\<newline>'' s0 =
     (Continue, launch calm_world ''EXIT'' [''EXIT'', ''now''] (tick s0))"
    using upper_line upper [of "clock s0" "env s0"] other by blast
  have "process_line calm_world ''exit now\<newline>'' s0 =
      dispatch calm_world [''exit'', ''now''] (tick s0)"
    using lower_line lower [of "clock s0" "env s0"] by blast
  then have c6: "process_line calm_world ''exit now\<newline>'' s0 = (Break, tick s0)"
    by (simp only: c3)
  have "main_loop calm_world [Line ''exit now\<newline>'', Line ''ls\<newline>''] s0 =
      (case dispatch calm_world [''exit'', ''now''] (tick (prompt calm_world s0)) of
         (fl, s') \<Rightarrow>
           if status s' \<noteq> Running then s'
           else if fl = Break then s'
           else main_loop calm_world [Line ''ls\<newline>''] s')"
    using lower_line run lower [of "clock (prompt calm_world s0)" "env s0"] by blast
  then have c7: "main_loop calm_world [Line ''exit now\<newline>'', Line ''ls\<newline>''] s0 =
      tick (prompt calm_world s0)"
    by (simp only: c3) simp
  from c1 c2 c3 [of s0] c4 c5 c6 c7 show ?thesis
    by blast
qed

section \<open>The prompt\<close>

text \<open>
  C8. A rendering of the prompt writes two strings: the bytes \<open>E2 94 8C\<close> (the corner),
  \<open>[\<close>, a label, \<open>]\<close> and a newline; then the bytes \<open>E2 94 94 E2 94 80\<close> and \<open>> \<close>.
  It has three outcomes. When \<^verbatim>\<open>getcwd\<close> succeeds (the path fits the label of
  \<open>MAX_PATH_AT_PROMPT\<close> bytes) the label is the path; when the path is too long for the
  label it is the placeholder \<open>!Path too long to be shown!\<close>; after any other failure a
  diagnostic is written and the label is the placeholder \<open>!Failed to get CWD!\<close>. The
  label is always one of the three, and the status of the process never changes: no
  outcome ends the session.
\<close>

theorem prompt_outcomes:
  "(getcwd_fault w (clock s) = None \<and> length (cwd s) < MAX_PATH_AT_PROMPT \<longrightarrow>
      stdout (prompt w s) =
        stdout s @ [[CHR 0xE2, CHR 0x94, CHR 0x8C] @ ''['' @ cwd s @ '']\<newline>'', [CHR 0xE2, CHR 0x94, CHR 0x94, CHR 0xE2, CHR 0x94, CHR 0x80] @ ''> ''] \<and>
      stderr (prompt w s) = stderr s) \<and>
   (getcwd_fault w (clock s) = None \<and> MAX_PATH_AT_PROMPT \<le> length (cwd s) \<longrightarrow>
      stdout (prompt w s) =
        stdout s @ [[CHR 0xE2, CHR 0x94, CHR 0x8C] @ ''[!Path too long to be shown!]\<newline>'', [CHR 0xE2, CHR 0x94, CHR 0x94, CHR 0xE2, CHR 0x94, CHR 0x80] @ ''> ''] \<and>
      stderr (prompt w s) = stderr s) \<and>
   (getcwd_fault w (clock s) = Some e \<and> e \<noteq> ERANGE \<longrightarrow>
      stdout (prompt w s) =
        stdout s @ [[CHR 0xE2, CHR 0x94, CHR 0x8C] @ ''[!Failed to get CWD!]\<newline>'', [CHR 0xE2, CHR 0x94, CHR 0x94, CHR 0xE2, CHR 0x94, CHR 0x80] @ ''> ''] \<and>
      stderr (prompt w s) = stderr s @ [(''Couldn't get cwd'', e)]) \<and>
   (\<exists>label. (label = cwd s \<or> label = ''!Path too long to be shown!'' \<or>
             label = ''!Failed to get CWD!'') \<and>
      stdout (prompt w s) =
        stdout s @ [[CHR 0xE2, CHR 0x94, CHR 0x8C] @ ''['' @ label @ '']\<newline>'', [CHR 0xE2, CHR 0x94, CHR 0x94, CHR 0xE2, CHR 0x94, CHR 0x80] @ ''> '']) \<and>
   status (prompt w s) = status s"
proof -
  have shown: "stdout (prompt w s) =
        stdout s @ [[CHR 0xE2, CHR 0x94, CHR 0x8C] @ ''['' @ cwd s @ '']\<newline>'', [CHR 0xE2, CHR 0x94, CHR 0x94, CHR 0xE2, CHR 0x94, CHR 0x80] @ ''> ''] \<and>
      stderr (prompt w s) = stderr s"
    if "getcwd_fault w (clock s) = None" "length (cwd s) < MAX_PATH_AT_PROMPT"
    using that by (simp add: prompt_def call_defs prompt_top_def prompt_bottom_def)
  have too_long: "stdout (prompt w s) =
        stdout s @ [[CHR 0xE2, CHR 0x94, CHR 0x8C] @ ''[!Path too long to be shown!]\<newline>'', [CHR 0xE2, CHR 0x94, CHR 0x94, CHR 0xE2, CHR 0x94, CHR 0x80] @ ''> ''] \<and>
      stderr (prompt w s) = stderr s"
    if "getcwd_fault w (clock s) = None" "MAX_PATH_AT_PROMPT \<le> length (cwd s)"
    using that
    by (simp add: prompt_def call_defs placeholder_fits prompt_top_def prompt_bottom_def)
  have other: "stdout (prompt w s) =
        stdout s @ [[CHR 0xE2, CHR 0x94, CHR 0x8C] @ ''[!Failed to get CWD!]\<newline>'', [CHR 0xE2, CHR 0x94, CHR 0x94, CHR 0xE2, CHR 0x94, CHR 0x80] @ ''> ''] \<and>
      stderr (prompt w s) = stderr s @ [(''Couldn't get cwd'', e)]"
    if "getcwd_fault w (clock s) = Some e" "e \<noteq> ERANGE"
    using that
    by (simp add: prompt_def call_defs placeholder_fits prompt_top_def prompt_bottom_def)
  from prompt_label [of s w]
  have three: "\<exists>label. (label = cwd s \<or> label = ''!Path too long to be shown!'' \<or>
             label = ''!Failed to get CWD!'') \<and>
      stdout (prompt w s) =
        stdout s @ [[CHR 0xE2, CHR 0x94, CHR 0x8C] @ ''['' @ label @ '']\<newline>'', [CHR 0xE2, CHR 0x94, CHR 0x94, CHR 0xE2, CHR 0x94, CHR 0x80] @ ''> '']"
    by (simp add: prompt_top_def prompt_bottom_def)
  from shown too_long other three prompt_frame(3) [of w s]
  show ?thesis by blast
qed

text \<open>
  The three outcomes, byte for byte: in the directory \<open>/tmp\<close>, in a directory whose path
  has 300 bytes, and when \<^verbatim>\<open>getcwd\<close> fails with \<open>ENOENT\<close>.
\<close>

theorem prompt_outcomes_witness:
  "stdout (prompt calm_world s0) =
     [[CHR 0xE2, CHR 0x94, CHR 0x8C] @ ''[/tmp]\<newline>'', [CHR 0xE2, CHR 0x94, CHR 0x94, CHR 0xE2, CHR 0x94, CHR 0x80] @ ''> ''] \<and>
   stdout (prompt calm_world (s0\<lparr>cwd := replicate 300 (CHR ''d'')\<rparr>)) =
     [[CHR 0xE2, CHR 0x94, CHR 0x8C] @ ''[!Path too long to be shown!]\<newline>'', [CHR 0xE2, CHR 0x94, CHR 0x94, CHR 0xE2, CHR 0x94, CHR 0x80] @ ''> ''] \<and>
   stdout (prompt (calm_world\<lparr>getcwd_fault := \<lambda>t. Some ENOENT\<rparr>) s0) =
     [[CHR 0xE2, CHR 0x94, CHR 0x8C] @ ''[!Failed to get CWD!]\<newline>'', [CHR 0xE2, CHR 0x94, CHR 0x94, CHR 0xE2, CHR 0x94, CHR 0x80] @ ''> ''] \<and>
   stderr (prompt (calm_world\<lparr>getcwd_fault := \<lambda>t. Some ENOENT\<rparr>) s0) =
     [(''Couldn't get cwd'', ENOENT)] \<and>
   status (prompt (calm_world\<lparr>getcwd_fault := \<lambda>t. Some ENOENT\<rparr>) s0) = Running"
proof -
  have a: "getcwd_fault calm_world (clock s0) = None \<and> length (cwd s0) < MAX_PATH_AT_PROMPT"
    by (simp add: calm_world_def s0_def process_start_def MAX_PATH_AT_PROMPT_def)
  have b: "getcwd_fault calm_world (clock (s0\<lparr>cwd := replicate 300 (CHR ''d'')\<rparr>)) = None \<and>
      MAX_PATH_AT_PROMPT \<le> length (cwd (s0\<lparr>cwd := replicate 300 (CHR ''d'')\<rparr>))"
    by (simp add: calm_world_def MAX_PATH_AT_PROMPT_def)
  have c: "getcwd_fault (calm_world\<lparr>getcwd_fault := \<lambda>t. Some ENOENT\<rparr>) (clock s0) = Some ENOENT \<and>
      ENOENT \<noteq> ERANGE"
    by (simp add: ENOENT_def ERANGE_def)
  have d: "stdout s0 = [] \<and> stderr s0 = [] \<and> status s0 = Running \<and> cwd s0 = ''/tmp''"
    by (simp add: s0_def process_start_def)
  from prompt_outcomes [of calm_world s0 ENOENT]
    prompt_outcomes [of calm_world "s0\<lparr>cwd := replicate 300 (CHR ''d'')\<rparr>" ENOENT]
    prompt_outcomes [of "calm_world\<lparr>getcwd_fault := \<lambda>t. Some ENOENT\<rparr>" s0 ENOENT]
    a b c d
  show ?thesis by simp
qed

section \<open>The end of the input\<close>

text \<open>
  C7. When \<^verbatim>\<open>getline\<close> reports the end of the input and the stream has no error, the
  iteration writes its prompt and then exactly one newline, the loop is left, and the
  process ends with exit status 0. This holds in every state the loop can be in, and so
  for a session whose input is empty from the start.
\<close>

theorem clean_eof_exit:
  "(status s = Running \<and> \<not> ferror s \<longrightarrow>
      status (main_end (main_loop w (Eof # rest) s)) = Exited 0 \<and>
      stdout (main_end (main_loop w (Eof # rest) s)) = stdout (prompt w s) @ [[CHR 0x0A]] \<and>
      status (main_end (main_loop w [] s)) = Exited 0 \<and>
      stdout (main_end (main_loop w [] s)) = stdout (prompt w s) @ [[CHR 0x0A]]) \<and>
   status (main w (Eof # rest) e d) = Exited 0 \<and>
   status (main w [] e d) = Exited 0 \<and>
   (\<exists>label. stdout (main w (Eof # rest) e d) = [prompt_top label, prompt_bottom, [CHR 0x0A]])"
proof -
  have local: "status (main_end (main_loop w inp s)) = Exited 0 \<and>
      stdout (main_end (main_loop w inp s)) = stdout (prompt w s) @ [[CHR 0x0A]]"
    if "status s = Running" "\<not> ferror s" "inp = [] \<or> inp = Eof # rest" for s inp
  proof -
    have "status (printf [CHR 0x0A] (prompt w s)) = Running"
      and "\<not> ferror (printf [CHR 0x0A] (prompt w s))"
      using that(1,2) by (simp_all add: printf_def prompt_frame)
    then show ?thesis
      by (simp add: main_loop_eof [OF that(3)] main_end_break) (simp add: printf_def)
  qed
  define b where "b = snd (wordexp w [] 0 (process_start e d))"
  have b: "status b = Running" "\<not> ferror b" "stdout b = []"
    by (simp_all add: b_def wordexp_def tick_def process_start_def)
  have whole: "status (main w inp e d) = Exited 0 \<and>
      stdout (main w inp e d) = stdout (prompt w b) @ [[CHR 0x0A]]"
    if "inp = [] \<or> inp = Eof # rest" for inp
    using local [OF b(1,2) that] by (simp add: main_def b_def)
  from prompt_label [of b w] b(3)
  obtain label where "stdout (prompt w b) = [prompt_top label, prompt_bottom]"
    by auto
  with whole [of "Eof # rest"]
  have "stdout (main w (Eof # rest) e d) = [prompt_top label, prompt_bottom, [CHR 0x0A]]"
    by simp
  with local [of s "Eof # rest"] local [of s "[]"] whole [of "[]"] whole [of "Eof # rest"]
  show ?thesis by blast
qed

text \<open>In \<open>/tmp\<close>, the end of the input leaves the prompt and one newline on standard output.\<close>

theorem clean_eof_exit_witness:
  "status (main_end (main_loop calm_world [Eof] s0)) = Exited 0 \<and>
   stdout (main_end (main_loop calm_world [Eof] s0)) =
     [prompt_top ''/tmp'', prompt_bottom, ''\<newline>'']"
proof -
  have pre: "status s0 = Running \<and> \<not> ferror s0"
    by (simp add: s0_def process_start_def)
  have out: "stdout (prompt calm_world s0) = [prompt_top ''/tmp'', prompt_bottom]"
    by (simp add: prompt_def call_defs calm_world_def s0_def process_start_def
        MAX_PATH_AT_PROMPT_def)
  from clean_eof_exit [of s0 calm_world "[]"] pre out show ?thesis by simp
qed

section \<open>The builtin \<open>export\<close>\<close>

lemma strsep_first:
  "d \<notin> set key \<Longrightarrow> strsep (key @ d # val) [d] = (key, Some val)"
  by (induction key) auto

lemma strsep_none:
  "d \<notin> set arg \<Longrightarrow> strsep arg [d] = (arg, None)"
  by (induction arg) auto

lemma export_arg_no_eq:
  "strdup_fault w (clock s) = None \<Longrightarrow> CHR ''='' \<notin> set arg \<Longrightarrow> export_arg w arg s = tick s"
  by (simp add: export_arg_def strdup_def strsep_none)

lemma export_arg_eq:
  "strdup_fault w (clock s) = None \<Longrightarrow> CHR ''='' \<notin> set key \<Longrightarrow>
   export_arg w (key @ CHR ''='' # val) s =
     (case setenv w key val True (tick s) of
        (r, s2) \<Rightarrow>
          if r = - 1 then error 0 (errno s2) (''Couldn't set '' @ key @ CHR ''='' # val) s2
          else s2)"
  by (simp add: export_arg_def strdup_def strsep_first)

lemma export_arg_status:
  "strdup_fault w (clock s) = None \<Longrightarrow> status (export_arg w arg s) = status s"
  by (auto simp add: export_arg_def call_defs split: prod.splits option.splits)

lemma do_export_next:
  "strdup_fault w (clock s) = None \<Longrightarrow> status s = Running \<Longrightarrow>
   do_export w (arg # rest) s = do_export w rest (export_arg w arg s)"
  by (simp add: Let_def export_arg_status)

lemma do_export_fold:
  "\<forall>t. strdup_fault w t = None \<Longrightarrow> status s = Running \<Longrightarrow>
   do_export w argv s = fold (export_arg w) argv s"
proof (induction argv arbitrary: s)
  case Nil
  show ?case by simp
next
  case (Cons arg argv)
  from Cons.prems have "status (export_arg w arg s) = Running"
    by (simp add: export_arg_status)
  with Cons show ?case
    by (simp add: Let_def)
qed



text \<open>
  C3. Every argument of \<open>export\<close> whose copy could be allocated is split once, at its first
  \<open>=\<close>. Without an \<open>=\<close> the argument is ignored: nothing but the clock of the process
  changes. With an \<open>=\<close>, \<^verbatim>\<open>setenv\<close> is called for the text before it and the text behind
  it; when the call succeeds the environment maps the key to the value, whatever it held
  before, and when it fails the environment is unchanged and a diagnostic names the
  argument. In each case the process keeps running and the loop goes on with the remaining
  arguments, so in a world where no copy fails the builtin is the fold of the step for one
  argument over the argument list.
\<close>

theorem do_export_each_argument:
  "strdup_fault w (clock s) = None \<Longrightarrow>
   (CHR ''='' \<notin> set arg \<longrightarrow> export_arg w arg s = tick s \<and> env (export_arg w arg s) = env s) \<and>
   (CHR ''='' \<notin> set key \<longrightarrow> strsep (key @ ''='' @ val) ''='' = (key, Some val)) \<and>
   (CHR ''='' \<notin> set key \<and> key \<noteq> [] \<and> setenv_fault w (Suc (clock s)) = None \<longrightarrow>
      env (export_arg w (key @ ''='' @ val) s) = (env s)(key \<mapsto> val) \<and>
      stderr (export_arg w (key @ ''='' @ val) s) = stderr s) \<and>
   (CHR ''='' \<notin> set key \<and> key \<noteq> [] \<and> setenv_fault w (Suc (clock s)) = Some e \<longrightarrow>
      env (export_arg w (key @ ''='' @ val) s) = env s \<and>
      stderr (export_arg w (key @ ''='' @ val) s) =
        stderr s @ [(''Couldn't set '' @ key @ ''='' @ val, e)]) \<and>
   status (export_arg w arg s) = status s \<and>
   (status s = Running \<longrightarrow>
      do_export w (arg # rest) s = do_export w rest (export_arg w arg s)) \<and>
   ((\<forall>t. strdup_fault w t = None) \<and> status s = Running \<longrightarrow>
      do_export w argv s = fold (export_arg w) argv s)"
proof -
  assume dup: "strdup_fault w (clock s) = None"
  have ignored: "export_arg w arg s = tick s \<and> env (export_arg w arg s) = env s"
    if "CHR ''='' \<notin> set arg"
    using export_arg_no_eq [OF dup that] by (simp add: tick_def)
  have split: "strsep (key @ ''='' @ val) ''='' = (key, Some val)" if "CHR ''='' \<notin> set key"
    using strsep_first [OF that] by simp
  have set: "env (export_arg w (key @ ''='' @ val) s) = (env s)(key \<mapsto> val) \<and>
      stderr (export_arg w (key @ ''='' @ val) s) = stderr s"
    if "CHR ''='' \<notin> set key" "key \<noteq> []" "setenv_fault w (Suc (clock s)) = None"
    using that export_arg_eq [OF dup that(1), of val] by (simp add: setenv_def tick_def)
  have failed: "env (export_arg w (key @ ''='' @ val) s) = env s \<and>
      stderr (export_arg w (key @ ''='' @ val) s) =
        stderr s @ [(''Couldn't set '' @ key @ ''='' @ val, e)]"
    if "CHR ''='' \<notin> set key" "key \<noteq> []" "setenv_fault w (Suc (clock s)) = Some e"
    using that export_arg_eq [OF dup that(1), of val] by (simp add: setenv_def tick_def error_def)
  from ignored split set failed export_arg_status [OF dup] do_export_next [OF dup]
    do_export_fold [of w s argv]
  show ?thesis by blast
qed

text \<open>
  With \<open>FOO=old\<close> in the environment: \<open>export BAR\<close> changes nothing, \<open>export FOO=a=b\<close>
  sets \<open>FOO\<close> to \<open>a=b\<close>, and when \<^verbatim>\<open>setenv\<close> runs out of memory the old value stays, the
  failure is reported and the next argument is processed.
\<close>

theorem do_export_each_argument_witness:
  "export_arg calm_world ''BAR'' s0 = tick s0 \<and>
   strsep ''FOO=a=b'' ''='' = (''FOO'', Some ''a=b'') \<and>
   env (export_arg calm_world ''FOO=a=b'' s0) = (env s0)(''FOO'' \<mapsto> ''a=b'') \<and>
   env (export_arg (calm_world\<lparr>setenv_fault := \<lambda>t. Some ENOMEM\<rparr>) ''FOO=a=b'' s0) = env s0 \<and>
   stderr (export_arg (calm_world\<lparr>setenv_fault := \<lambda>t. Some ENOMEM\<rparr>) ''FOO=a=b'' s0) =
     [(''Couldn't set FOO=a=b'', ENOMEM)] \<and>
   do_export (calm_world\<lparr>setenv_fault := \<lambda>t. Some ENOMEM\<rparr>) [''FOO=a=b'', ''BAR''] s0 =
     do_export (calm_world\<lparr>setenv_fault := \<lambda>t. Some ENOMEM\<rparr>) [''BAR'']
       (export_arg (calm_world\<lparr>setenv_fault := \<lambda>t. Some ENOMEM\<rparr>) ''FOO=a=b'' s0) \<and>
   do_export calm_world [''BAR'', ''FOO=a=b''] s0 =
     fold (export_arg calm_world) [''BAR'', ''FOO=a=b''] s0"
proof -
  have dup: "strdup_fault calm_world (clock s0) = None"
    "strdup_fault (calm_world\<lparr>setenv_fault := \<lambda>t. Some ENOMEM\<rparr>) (clock s0) = None"
    "\<forall>t. strdup_fault calm_world t = None"
    by (simp_all add: calm_world_def)
  have names: "CHR ''='' \<notin> set ''BAR''" "CHR ''='' \<notin> set ''FOO'' \<and> ''FOO'' \<noteq> []"
    by simp_all
  have mem: "setenv_fault calm_world (Suc (clock s0)) = None"
    "setenv_fault (calm_world\<lparr>setenv_fault := \<lambda>t. Some ENOMEM\<rparr>) (Suc (clock s0)) = Some ENOMEM"
    by (simp_all add: calm_world_def)
  have st: "status s0 = Running" "stderr s0 = []"
    by (simp_all add: s0_def process_start_def)
  from do_export_each_argument [OF dup(1), of "''BAR''" "''FOO''" "''a=b''" ENOMEM "[]"
      "[''BAR'', ''FOO=a=b'']"]
    do_export_each_argument [OF dup(2), of "''FOO=a=b''" "''FOO''" "''a=b''" ENOMEM "[''BAR'']" "[]"]
    dup(3) names mem st
  show ?thesis by (simp del: do_export.simps)
qed

text \<open>
  C10. An argument of \<open>export\<close> that begins with \<open>=\<close> is split into the empty key and the
  text behind the \<open>=\<close>. \<^verbatim>\<open>setenv\<close> refuses the empty name with \<open>EINVAL\<close>: a diagnostic
  naming the argument is written, the environment is left as it was, the process keeps
  running and the remaining arguments are processed.
\<close>

theorem export_empty_key:
  "strdup_fault w (clock s) = None \<Longrightarrow>
   strsep (CHR ''='' # v) ''='' = ([], Some v) \<and>
   export_arg w (CHR ''='' # v) s =
     error 0 EINVAL (''Couldn't set ='' @ v) ((tick s)\<lparr>errno := EINVAL\<rparr>) \<and>
   env (export_arg w (CHR ''='' # v) s) = env s \<and>
   stderr (export_arg w (CHR ''='' # v) s) = stderr s @ [(''Couldn't set ='' @ v, EINVAL)] \<and>
   status (export_arg w (CHR ''='' # v) s) = status s \<and>
   (status s = Running \<longrightarrow>
      do_export w ((CHR ''='' # v) # rest) s = do_export w rest (export_arg w (CHR ''='' # v) s))"
proof -
  assume dup: "strdup_fault w (clock s) = None"
  have step: "export_arg w (CHR ''='' # v) s =
     error 0 EINVAL (''Couldn't set ='' @ v) ((tick s)\<lparr>errno := EINVAL\<rparr>)"
    using export_arg_eq [OF dup, of "[]" v] by (simp add: setenv_def)
  have "strsep (CHR ''='' # v) ''='' = ([], Some v)"
    by simp
  moreover have "env (export_arg w (CHR ''='' # v) s) = env s"
    and "stderr (export_arg w (CHR ''='' # v) s) = stderr s @ [(''Couldn't set ='' @ v, EINVAL)]"
    by (simp_all add: step error_def tick_def)
  ultimately show ?thesis
    using step export_arg_status [OF dup] do_export_next [OF dup] by blast
qed

text \<open>
  \<open>export =V FOO=bar\<close>: the first argument is reported and sets nothing, the second one
  is still exported.
\<close>

theorem export_empty_key_witness:
  "env (export_arg calm_world ''=V'' s0) = env s0 \<and>
   stderr (export_arg calm_world ''=V'' s0) = [(''Couldn't set =V'', EINVAL)] \<and>
   status (export_arg calm_world ''=V'' s0) = Running \<and>
   do_export calm_world [''=V'', ''FOO=bar''] s0 =
     do_export calm_world [''FOO=bar''] (export_arg calm_world ''=V'' s0) \<and>
   env (do_export calm_world [''=V'', ''FOO=bar''] s0) ''FOO'' = Some ''bar'' \<and>
   env (do_export calm_world [''=V'', ''FOO=bar''] s0) [] = None"
proof -
  have dup: "strdup_fault calm_world (clock s0) = None"
    by (simp add: calm_world_def)
  have st: "status s0 = Running" "stderr s0 = []"
    by (simp_all add: s0_def process_start_def)
  note step = export_empty_key [OF dup, of "''V''" "[''FOO=bar'']"]
  have rest: "env (do_export calm_world [''FOO=bar''] (export_arg calm_world ''=V'' s0)) =
      (env s0)(''FOO'' \<mapsto> ''bar'')"
    using step st
    by (simp add: export_arg_def strdup_def setenv_def tick_def error_def calm_world_def Let_def)
  have "env s0 [] = None"
    by (simp add: s0_def process_start_def kid_env_def)
  with step st rest show ?thesis by (simp add: error_def tick_def del: do_export.simps)
qed

section \<open>The builtin \<open>unset\<close>\<close>

lemma unset_arg_valid:
  "name \<noteq> [] \<Longrightarrow> CHR ''='' \<notin> set name \<Longrightarrow> unset_arg name s = s\<lparr>env := (env s)(name := None)\<rparr>"
  by (simp add: unset_arg_def unsetenv_def)

lemma unset_arg_invalid:
  "name = [] \<or> CHR ''='' \<in> set name \<Longrightarrow>
   unset_arg name s = error 0 EINVAL (''Couldn't unset '' @ name) (s\<lparr>errno := EINVAL\<rparr>)"
  by (auto simp add: unset_arg_def unsetenv_def)

lemma unset_arg_frame:
  "line_frees (unset_arg arg s) = line_frees s"
  "wordfrees (unset_arg arg s) = wordfrees s"
  "ferror (unset_arg arg s) = ferror s"
  "status (unset_arg arg s) = status s"
  by (simp_all add: unset_arg_def unsetenv_def error_def)

lemma unset_arg_env:
  "env (unset_arg arg s) =
     (\<lambda>k. if k = arg \<and> arg \<noteq> [] \<and> CHR ''='' \<notin> set arg then None else env s k)"
  by (auto simp add: unset_arg_def unsetenv_def error_def)

lemma do_unset_frame:
  "line_frees (do_unset argv s) = line_frees s \<and>
   wordfrees (do_unset argv s) = wordfrees s \<and>
   ferror (do_unset argv s) = ferror s \<and>
   status (do_unset argv s) = status s"
  by (induction argv arbitrary: s) (simp_all add: unset_arg_frame)

lemma do_unset_env:
  "env (do_unset argv s) =
     (\<lambda>k. if k \<in> set argv \<and> k \<noteq> [] \<and> CHR ''='' \<notin> set k then None else env s k)"
proof (induction argv arbitrary: s)
  case Nil
  show ?case by simp
next
  case (Cons arg argv)
  show ?case
    by (auto simp add: Cons unset_arg_env fun_eq_iff)
qed

text \<open>
  C9. \<open>unset\<close> is idempotent. For a key (a name that is not empty and has no \<open>=\<close>)
  that the environment does not hold, \<open>unset\<close> leaves the whole state of the process as
  it was and reports nothing; for a key that is held, the entry is removed and a second
  \<open>unset\<close> of the same key changes nothing more. For any argument list, running the
  builtin twice leaves the same environment as running it once. An argument that
  \<^verbatim>\<open>unsetenv\<close> refuses is reported and leaves the environment unchanged; the loop goes
  on with the remaining arguments and the process keeps its status.
\<close>

theorem do_unset_idempotent:
  "(name \<noteq> [] \<and> CHR ''='' \<notin> set name \<and> env s name = None \<longrightarrow> do_unset [name] s = s) \<and>
   (name \<noteq> [] \<and> CHR ''='' \<notin> set name \<longrightarrow>
      env (do_unset [name] s) = (env s)(name := None) \<and>
      stderr (do_unset [name] s) = stderr s \<and>
      do_unset [name] (do_unset [name] s) = do_unset [name] s) \<and>
   env (do_unset argv (do_unset argv s)) = env (do_unset argv s) \<and>
   (name = [] \<or> CHR ''='' \<in> set name \<longrightarrow>
      env (unset_arg name s) = env s \<and>
      stderr (unset_arg name s) = stderr s @ [(''Couldn't unset '' @ name, EINVAL)]) \<and>
   do_unset (arg # rest) s = do_unset rest (unset_arg arg s) \<and>
   status (do_unset argv s) = status s"
proof -
  have absent: "do_unset [name] s = s"
    if "name \<noteq> []" "CHR ''='' \<notin> set name" "env s name = None"
  proof -
    from that(3) have "(env s)(name := None) = env s"
      by (simp add: fun_upd_idem)
    with that(1,2) show ?thesis
      by (simp add: unset_arg_valid)
  qed
  have removed: "env (do_unset [name] s) = (env s)(name := None) \<and>
      stderr (do_unset [name] s) = stderr s \<and>
      do_unset [name] (do_unset [name] s) = do_unset [name] s"
    if "name \<noteq> []" "CHR ''='' \<notin> set name"
    using that by (simp add: unset_arg_valid)
  have twice: "env (do_unset argv (do_unset argv s)) = env (do_unset argv s)"
    by (simp add: do_unset_env fun_eq_iff)
  have failure: "env (unset_arg name s) = env s \<and>
      stderr (unset_arg name s) = stderr s @ [(''Couldn't unset '' @ name, EINVAL)]"
    if "name = [] \<or> CHR ''='' \<in> set name"
    by (simp add: unset_arg_invalid [OF that] error_def)
  have "do_unset (arg # rest) s = do_unset rest (unset_arg arg s)"
    by simp
  with absent removed twice failure do_unset_frame [of argv s] show ?thesis
    by blast
qed

text \<open>
  \<open>BAR\<close> is not set and \<open>unset BAR\<close> is a no-op; \<open>unset FOO\<close> twice is \<open>unset FOO\<close>
  once; \<open>unset A=B FOO\<close> reports its first argument and still removes \<open>FOO\<close>.
\<close>

theorem do_unset_idempotent_witness:
  "do_unset [''BAR''] s0 = s0 \<and>
   env (do_unset [''FOO''] s0) ''FOO'' = None \<and>
   do_unset [''FOO''] (do_unset [''FOO''] s0) = do_unset [''FOO''] s0 \<and>
   stderr (unset_arg ''A=B'' s0) = [(''Couldn't unset A=B'', EINVAL)] \<and>
   env (unset_arg ''A=B'' s0) = env s0 \<and>
   do_unset [''A=B'', ''FOO''] s0 = do_unset [''FOO''] (unset_arg ''A=B'' s0) \<and>
   status (do_unset [''A=B'', ''FOO''] s0) = Running"
proof -
  have bar: "''BAR'' \<noteq> [] \<and> CHR ''='' \<notin> set ''BAR'' \<and> env s0 ''BAR'' = None"
    by (simp add: s0_def process_start_def kid_env_def)
  have foo: "''FOO'' \<noteq> [] \<and> CHR ''='' \<notin> set ''FOO''"
    by simp
  have bad: "''A=B'' = [] \<or> CHR ''='' \<in> set ''A=B''"
    by simp
  have st: "status s0 = Running" "stderr s0 = []"
    by (simp_all add: s0_def process_start_def)
  from do_unset_idempotent [of "''BAR''" s0 "[]" "''A=B''" "[''FOO'']"]
    do_unset_idempotent [of "''FOO''" s0 "[''A=B'', ''FOO'']" "''A=B''" "[''FOO'']"]
    do_unset_idempotent [of "''A=B''" s0 "[]" "''A=B''" "[''FOO'']"]
    bar foo bad st
  show ?thesis by simp
qed

section \<open>The builtin \<open>cd\<close>\<close>

lemma cd_to_frame:
  "line_frees (cd_to w dir argv s) = line_frees s"
  "wordfrees (cd_to w dir argv s) = wordfrees s"
  "ferror (cd_to w dir argv s) = ferror s"
  "status (cd_to w dir argv s) = status s"
  by (auto simp add: cd_to_def call_defs split: sum.splits)

lemma do_cd_frame:
  "line_frees (do_cd w argv s) = line_frees s \<and>
   wordfrees (do_cd w argv s) = wordfrees s \<and>
   ferror (do_cd w argv s) = ferror s \<and>
   status (do_cd w argv s) = status s"
  by (cases argv) (auto simp add: cd_to_frame getenv_def error_def split: option.splits)

text \<open>
  C4. Without an argument the target of \<open>cd\<close> is the value of \<open>HOME\<close>; when \<open>HOME\<close> is
  not set, \<open>HOME not set\<close> is reported and the working directory stays. With one argument
  the target is the argument. With more than one, \<open>Too many arguments\<close> is reported and
  the working directory stays. For a target, the working directory becomes what
  \<^verbatim>\<open>chdir\<close> answers; when \<^verbatim>\<open>chdir\<close> fails the failure is reported with the target and
  the working directory stays. No case changes the status of the process.
\<close>

theorem do_cd_cases:
  "(env s ''HOME'' = None \<longrightarrow>
      do_cd w [] s = error 0 0 ''HOME not set'' s \<and> cwd (do_cd w [] s) = cwd s) \<and>
   (env s ''HOME'' = Some home \<longrightarrow> do_cd w [] s = cd_to w home [] s) \<and>
   do_cd w [dir] s = cd_to w dir [] s \<and>
   do_cd w (dir # extra # others) s = error 0 0 ''Too many arguments'' s \<and>
   cwd (do_cd w (dir # extra # others) s) = cwd s \<and>
   (chdir_sys w (clock s) (cwd s) dir = Inr d \<longrightarrow>
      cwd (cd_to w dir [] s) = d \<and> stderr (cd_to w dir [] s) = stderr s) \<and>
   (chdir_sys w (clock s) (cwd s) dir = Inl e \<longrightarrow>
      cwd (cd_to w dir [] s) = cwd s \<and>
      stderr (cd_to w dir [] s) = stderr s @ [(''Couldn't cd to '' @ dir, e)]) \<and>
   status (do_cd w argv s) = status s"
proof -
  have no_home: "do_cd w [] s = error 0 0 ''HOME not set'' s \<and> cwd (do_cd w [] s) = cwd s"
    if "env s ''HOME'' = None"
    using that by (simp add: getenv_def error_def)
  have home: "do_cd w [] s = cd_to w home [] s" if "env s ''HOME'' = Some home"
    using that by (simp add: getenv_def)
  have one: "do_cd w [dir] s = cd_to w dir [] s"
    by simp
  have many: "do_cd w (dir # extra # others) s = error 0 0 ''Too many arguments'' s"
    "cwd (do_cd w (dir # extra # others) s) = cwd s"
    by (simp_all add: cd_to_def error_def)
  have changed: "cwd (cd_to w dir [] s) = d \<and> stderr (cd_to w dir [] s) = stderr s"
    if "chdir_sys w (clock s) (cwd s) dir = Inr d"
    using that by (simp add: cd_to_def chdir_def tick_def)
  have failed: "cwd (cd_to w dir [] s) = cwd s \<and>
      stderr (cd_to w dir [] s) = stderr s @ [(''Couldn't cd to '' @ dir, e)]"
    if "chdir_sys w (clock s) (cwd s) dir = Inl e"
    using that by (simp add: cd_to_def chdir_def tick_def error_def)
  from no_home home one many changed failed do_cd_frame [of w argv s] show ?thesis
    by blast
qed

text \<open>
  From \<open>/tmp\<close> with \<open>HOME=/home/kid\<close>: \<open>cd\<close> goes home, \<open>cd /\<close> goes to the root,
  \<open>cd / /home/kid\<close> and \<open>cd /does/not/exist\<close> stay in \<open>/tmp\<close>, as does \<open>cd\<close> without
  \<open>HOME\<close>.
\<close>

theorem do_cd_cases_witness:
  "cwd (do_cd calm_world [] s0) = ''/home/kid'' \<and>
   do_cd calm_world [] (s0\<lparr>env := Map.empty\<rparr>) = error 0 0 ''HOME not set'' (s0\<lparr>env := Map.empty\<rparr>) \<and>
   cwd (do_cd calm_world [] (s0\<lparr>env := Map.empty\<rparr>)) = ''/tmp'' \<and>
   cwd (do_cd calm_world [''/''] s0) = ''/'' \<and>
   do_cd calm_world [''/'', ''/home/kid''] s0 = error 0 0 ''Too many arguments'' s0 \<and>
   cwd (do_cd calm_world [''/'', ''/home/kid''] s0) = ''/tmp'' \<and>
   cwd (do_cd calm_world [''/does/not/exist''] s0) = ''/tmp'' \<and>
   stderr (do_cd calm_world [''/does/not/exist''] s0) = [(''Couldn't cd to /does/not/exist'', ENOENT)] \<and>
   status (do_cd calm_world [''/does/not/exist''] s0) = Running"
proof -
  have s: "env s0 ''HOME'' = Some ''/home/kid''" "cwd s0 = ''/tmp''" "stderr s0 = []"
    "status s0 = Running" "clock s0 = 0"
    by (simp_all add: s0_def process_start_def kid_env_def)
  have unset: "env (s0\<lparr>env := Map.empty\<rparr>) ''HOME'' = None"
    by simp
  have ok: "chdir_sys calm_world (clock s0) (cwd s0) ''/home/kid'' = Inr ''/home/kid''"
    "chdir_sys calm_world (clock s0) (cwd s0) ''/'' = Inr ''/''"
    by (simp_all add: calm_world_def)
  have bad: "chdir_sys calm_world (clock s0) (cwd s0) ''/does/not/exist'' = Inl ENOENT"
    by (simp add: calm_world_def)
  from do_cd_cases [of s0 calm_world "''/home/kid''" "''/home/kid''" "[]" "[]" "''/home/kid''" ENOENT "[]"]
    do_cd_cases [of "s0\<lparr>env := Map.empty\<rparr>" calm_world "''/home/kid''" "''/''" "''/home/kid''" "[]" "''/''" ENOENT "[]"]
    do_cd_cases [of s0 calm_world "''/home/kid''" "''/''" "''/home/kid''" "[]" "''/''" ENOENT "[''/does/not/exist'']"]
    do_cd_cases [of s0 calm_world "''/home/kid''" "''/does/not/exist''" "''/home/kid''" "[]" "''/''" ENOENT "[''/does/not/exist'']"]
    s unset ok bad
  show ?thesis by (simp add: getenv_def error_def)
qed

section \<open>The process launcher\<close>



lemma launch_parent:
  "fork_sys w (clock s) = Inr pid \<Longrightarrow> pid \<noteq> - 1 \<Longrightarrow> pid \<noteq> 0 \<Longrightarrow>
   waitpid_sys w (Suc (clock s)) pid = Inr wstatus \<Longrightarrow>
   launch w program argv s = report w wstatus (tick (tick s))"
  by (simp add: launch_def fork_def waitpid_def tick_def)

lemma main_loop_fatal:
  "status (snd (process_line w raw (prompt w s))) \<noteq> Running \<Longrightarrow>
   main_end (main_loop w (Line raw # rest) s) = snd (process_line w raw (prompt w s))"
  by (cases "process_line w raw (prompt w s)") (simp add: main_end_def)

text \<open>
  The wait status of a child that exited with code \<open>c\<close> is \<open>c\<close> shifted left by eight
  bits, and the wait status of a child ended by signal \<open>sig\<close> carries \<open>sig\<close> in its low
  seven bits: the macros classify both and give the number back.
\<close>

lemma exit_status_roundtrip:
  fixes c :: "32 word"
  assumes "c < 256"
  shows "WIFEXITED (push_bit 8 c)" "WEXITSTATUS (push_bit 8 c) = c"
proof -
  have m7: "(0x7f :: 32 word) = mask 7" and m8: "(0xff00 :: 32 word) = push_bit 8 (mask 8)"
    by (simp_all add: mask_eq_exp_minus_1)
  from assms have "c < 2 ^ 8" by simp
  then have "c AND mask 8 = c"
    by (rule less_mask_eq)
  then have c: "take_bit 8 c = c"
    by (simp add: take_bit_eq_mask)
  show "WIFEXITED (push_bit 8 c)"
    unfolding WIFEXITED_def WTERMSIG_def m7
    by (rule bit_word_eqI) (auto simp add: bit_simps)
  have "drop_bit 8 (push_bit 8 c AND push_bit 8 (mask 8)) = take_bit 8 c"
    by (rule bit_word_eqI) (auto simp add: bit_simps)
  with c show "WEXITSTATUS (push_bit 8 c) = c"
    unfolding WEXITSTATUS_def m8 by simp
qed

lemma signal_status_roundtrip:
  fixes sig :: "32 word"
  assumes "0 < sig" "sig < 127"
  shows "\<not> WIFEXITED sig" "WIFSIGNALED sig" "WTERMSIG sig = sig"
proof -
  from assms(2) have "sig < 2 ^ 7"
    by unat_arith
  then have low: "sig AND 0x7f = sig"
    using less_mask_eq [of sig 7] by (simp add: mask_eq_exp_minus_1)
  show "WTERMSIG sig = sig"
    by (simp add: WTERMSIG_def low)
  with assms(1) show "\<not> WIFEXITED sig"
    by (simp add: WIFEXITED_def)
  from assms have k: "0 < uint sig" "uint sig < 127"
    by (simp_all add: word_less_def word_neq_0_conv [symmetric] uint_0_iff)
  have "uint (sig + 1) = (uint sig + 1) mod 2 ^ 32"
    by (simp add: uint_word_ariths)
  with k have succ: "uint (sig + 1) = uint sig + 1"
    by simp
  have "uint (ucast (sig + 1) :: 8 word) = take_bit 8 (uint (sig + 1))"
    by (simp add: unsigned_ucast_eq)
  with k succ have small: "uint (ucast (sig + 1) :: 8 word) = uint sig + 1"
    by (simp add: take_bit_eq_mod)
  have "sint (ucast (sig + 1) :: 8 word) = signed_take_bit 7 (uint sig + 1)"
    by (simp add: sint_uint small)
  also from k have "\<dots> = uint sig + 1"
    by (simp add: signed_take_bit_int_eq_self)
  finally have "sint (signed_drop_bit 1 (ucast (sig + 1) :: 8 word)) = (uint sig + 1) div 2"
    by (simp add: sint_signed_drop_bit_eq drop_bit_eq_div)
  with k have "0 < sint (signed_drop_bit 1 (ucast (sig + 1) :: 8 word))"
    by simp
  then show "WIFSIGNALED sig"
    by (simp add: WIFSIGNALED_def low)
qed

text \<open>
  C6. In the parent, once \<^verbatim>\<open>waitpid\<close> has returned the status of the child, \<open>launch\<close>
  reports it: for a child that exited, its exit code; for a child ended by a signal, the
  number of the signal and the name \<^verbatim>\<open>strsignal\<close> gives it; the process keeps running in
  both cases. A wait status that is neither ends the process with \<open>EXIT_FAILURE\<close> and a
  diagnostic, and with it the session: \<open>main\<close> runs no further iteration and returns the
  state the fatal call left. The status of a child that exited with code \<open>c\<close> is classified
  as exited with code \<open>c\<close>, the status of a child ended by signal \<open>sig\<close> as signaled
  with \<open>sig\<close>.
\<close>

theorem launch_reports_child:
  "(fork_sys w (clock s) = Inr pid \<and> pid \<noteq> - 1 \<and> pid \<noteq> 0 \<and>
    waitpid_sys w (Suc (clock s)) pid = Inr wstatus \<longrightarrow>
      launch w program argv s = report w wstatus (tick (tick s))) \<and>
   (WIFEXITED wstatus \<longrightarrow>
      report w wstatus s =
        printf (''Process exited with error code '' @ show_int (sint (WEXITSTATUS wstatus))
                @ ''\<newline>'') s \<and>
      status (report w wstatus s) = status s) \<and>
   (\<not> WIFEXITED wstatus \<and> WIFSIGNALED wstatus \<longrightarrow>
      report w wstatus s =
        printf (''Process was terminated by signal '' @ show_int (sint (WTERMSIG wstatus))
                @ '': '' @ strsignal w (sint (WTERMSIG wstatus)) @ ''\<newline>'') s \<and>
      status (report w wstatus s) = status s) \<and>
   (\<not> WIFEXITED wstatus \<and> \<not> WIFSIGNALED wstatus \<longrightarrow>
      status (report w wstatus s) = Exited EXIT_FAILURE \<and>
      stdout (report w wstatus s) = stdout s \<and>
      stderr (report w wstatus s) = stderr s @
        [(''waitpid should have waited for the process termination, but it didn't'', 0)]) \<and>
   (status (snd (process_line w raw (prompt w s))) \<noteq> Running \<longrightarrow>
      main_end (main_loop w (Line raw # rest) s) = snd (process_line w raw (prompt w s))) \<and>
   (c < 256 \<longrightarrow> WIFEXITED (push_bit 8 c) \<and> WEXITSTATUS (push_bit 8 c) = c) \<and>
   (0 < sig \<and> sig < 127 \<longrightarrow> \<not> WIFEXITED sig \<and> WIFSIGNALED sig \<and> WTERMSIG sig = sig)"
proof -
  have exited: "report w wstatus s =
        printf (''Process exited with error code '' @ show_int (sint (WEXITSTATUS wstatus))
                @ ''\<newline>'') s \<and>
      status (report w wstatus s) = status s"
    if "WIFEXITED wstatus"
    using that by (simp add: report_def printf_def)
  have signaled: "report w wstatus s =
        printf (''Process was terminated by signal '' @ show_int (sint (WTERMSIG wstatus))
                @ '': '' @ strsignal w (sint (WTERMSIG wstatus)) @ ''\<newline>'') s \<and>
      status (report w wstatus s) = status s"
    if "\<not> WIFEXITED wstatus" "WIFSIGNALED wstatus"
    using that by (simp add: report_def printf_def)
  have neither: "status (report w wstatus s) = Exited EXIT_FAILURE \<and>
      stdout (report w wstatus s) = stdout s \<and>
      stderr (report w wstatus s) = stderr s @
        [(''waitpid should have waited for the process termination, but it didn't'', 0)]"
    if "\<not> WIFEXITED wstatus" "\<not> WIFSIGNALED wstatus"
    using that by (simp add: report_def error_def EXIT_FAILURE_def)
  from exited signaled neither launch_parent [of w s pid wstatus program argv]
    main_loop_fatal [of w raw s rest] exit_status_roundtrip [of c]
    signal_status_roundtrip [of sig]
  show ?thesis by blast
qed

text \<open>
  A child that exits with code 2 (wait status \<open>0x0200\<close>), a child ended by signal 15
  (wait status \<open>15\<close>) and a wait status that says "stopped" (\<open>0x137f\<close>); after the
  last one the second line of the input is never read.
\<close>

theorem launch_reports_child_witness:
  "stdout (launch (calm_world\<lparr>waitpid_sys := \<lambda>t pid. Inr 0x200\<rparr>) ''false'' [''false''] s0) =
     [''Process exited with error code 2\<newline>''] \<and>
   stdout (launch (calm_world\<lparr>waitpid_sys := \<lambda>t pid. Inr 15\<rparr>) ''sleep'' [''sleep'', ''9''] s0) =
     [''Process was terminated by signal 15: Terminated\<newline>''] \<and>
   status (launch (calm_world\<lparr>waitpid_sys := \<lambda>t pid. Inr 0x137f\<rparr>) ''vi'' [''vi''] s0) =
     Exited EXIT_FAILURE \<and>
   status (main_end (main_loop (calm_world\<lparr>waitpid_sys := \<lambda>t pid. Inr 0x137f\<rparr>)
      [Line ''vi\<newline>'', Line ''export A=1\<newline>''] s0)) = Exited EXIT_FAILURE \<and>
   WIFEXITED (push_bit 8 2) \<and> WEXITSTATUS (push_bit 8 2) = 2 \<and>
   \<not> WIFEXITED 15 \<and> WIFSIGNALED 15 \<and> WTERMSIG 15 = 15"
proof -
  let ?exit2 = "calm_world\<lparr>waitpid_sys := \<lambda>t pid. Inr 0x200\<rparr>"
  let ?sig15 = "calm_world\<lparr>waitpid_sys := \<lambda>t pid. Inr 15\<rparr>"
  let ?stop = "calm_world\<lparr>waitpid_sys := \<lambda>t pid. Inr 0x137f\<rparr>"
  note T = launch_reports_child
  have decode:
    "WIFEXITED 0x200" "sint (WEXITSTATUS 0x200) = 2"
    "\<not> WIFEXITED 15 \<and> WIFSIGNALED 15" "sint (WTERMSIG 15) = 15"
    "\<not> WIFEXITED 0x137f \<and> \<not> WIFSIGNALED 0x137f"
    by (simp_all add: WIFEXITED_def WIFSIGNALED_def WTERMSIG_def WEXITSTATUS_def)
  have digits: "show_int 2 = ''2''" "show_int 15 = ''15''"
    by (simp_all add: show_int_def show_nat.simps)
  have parent:
    "fork_sys ?exit2 (clock s) = Inr 4242 \<and> (4242::int) \<noteq> - 1 \<and> (4242::int) \<noteq> 0 \<and>
     waitpid_sys ?exit2 (Suc (clock s)) 4242 = Inr 0x200"
    "fork_sys ?sig15 (clock s) = Inr 4242 \<and> (4242::int) \<noteq> - 1 \<and> (4242::int) \<noteq> 0 \<and>
     waitpid_sys ?sig15 (Suc (clock s)) 4242 = Inr 15"
    "fork_sys ?stop (clock s) = Inr 4242 \<and> (4242::int) \<noteq> - 1 \<and> (4242::int) \<noteq> 0 \<and>
     waitpid_sys ?stop (Suc (clock s)) 4242 = Inr 0x137f" for s
    by (simp_all add: calm_world_def)
  have l1: "launch ?exit2 ''false'' [''false''] s0 = report ?exit2 0x200 (tick (tick s0))"
    by (rule T [THEN conjunct1, THEN mp]) (rule parent(1))
  have r1: "report ?exit2 0x200 (tick (tick s0)) =
      printf (''Process exited with error code '' @ show_int (sint (WEXITSTATUS 0x200)) @ ''\<newline>'')
        (tick (tick s0))"
    by (rule T [THEN conjunct2, THEN conjunct1, THEN mp, THEN conjunct1]) (rule decode(1))
  have l2: "launch ?sig15 ''sleep'' [''sleep'', ''9''] s0 = report ?sig15 15 (tick (tick s0))"
    by (rule T [THEN conjunct1, THEN mp]) (rule parent(2))
  have r2: "report ?sig15 15 (tick (tick s0)) =
      printf (''Process was terminated by signal '' @ show_int (sint (WTERMSIG 15))
                @ '': '' @ strsignal ?sig15 (sint (WTERMSIG 15)) @ ''\<newline>'') (tick (tick s0))"
    by (rule T [THEN conjunct2, THEN conjunct2, THEN conjunct1, THEN mp, THEN conjunct1])
      (rule decode(3))
  have l3: "launch ?stop ''vi'' [''vi''] s = report ?stop 0x137f (tick (tick s))" for s
    by (rule T [THEN conjunct1, THEN mp]) (rule parent(3))
  have r3: "status (report ?stop 0x137f s) = Exited EXIT_FAILURE" for s
    by (rule T [THEN conjunct2, THEN conjunct2, THEN conjunct2, THEN conjunct1, THEN mp,
          THEN conjunct1]) (rule decode(5))
  have line: "process_line ?stop ''vi\<newline>'' (prompt ?stop s0) =
     (Continue, launch ?stop ''vi'' [''vi''] (tick (prompt ?stop s0)))"
    by (simp add: process_line_def wordexp_def calm_world_def calm_wordexp_def
      cstr_def trim_newline_def dispatch_def prompt_frame Let_def)
  have fatal: "main_end (main_loop ?stop [Line ''vi\<newline>'', Line ''export A=1\<newline>''] s0) =
      snd (process_line ?stop ''vi\<newline>'' (prompt ?stop s0))"
    by (rule T [THEN conjunct2, THEN conjunct2, THEN conjunct2, THEN conjunct2, THEN conjunct1,
          THEN mp]) (simp add: line l3 r3)
  have out: "stdout (tick (tick s0)) = []"
    by (simp add: tick_def s0_def process_start_def)
  have name: "strsignal calm_world 15 = ''Terminated''"
    by (simp add: calm_world_def)
  have c1: "stdout (launch ?exit2 ''false'' [''false''] s0) =
      [''Process exited with error code 2\<newline>'']"
    by (simp add: l1 r1 decode digits printf_def out)
  have c2: "stdout (launch ?sig15 ''sleep'' [''sleep'', ''9''] s0) =
      [''Process was terminated by signal 15: Terminated\<newline>'']"
    by (simp add: l2 r2 decode digits printf_def out name)
  have c3: "status (launch ?stop ''vi'' [''vi''] s0) = Exited EXIT_FAILURE"
    by (simp add: l3 r3)
  have c4: "status (main_end (main_loop ?stop [Line ''vi\<newline>'', Line ''export A=1\<newline>''] s0)) =
      Exited EXIT_FAILURE"
    by (simp only: fatal line snd_conv l3 r3)
  have c5: "WIFEXITED (push_bit 8 2) \<and> WEXITSTATUS (push_bit 8 2) = 2"
    by (rule T [THEN conjunct2, THEN conjunct2, THEN conjunct2, THEN conjunct2, THEN conjunct2,
          THEN conjunct1, THEN mp]) simp
  have c6: "\<not> WIFEXITED 15 \<and> WIFSIGNALED 15 \<and> WTERMSIG 15 = 15"
    by (rule T [THEN conjunct2, THEN conjunct2, THEN conjunct2, THEN conjunct2, THEN conjunct2,
          THEN conjunct2, THEN mp]) simp
  from c1 c2 c3 c4 c5 c6 show ?thesis
    by blast
qed

section \<open>The resources of the process\<close>

lemma calm_world_simps:
  "getcwd_fault calm_world t = None" "strdup_fault calm_world t = None"
  "setenv_fault calm_world t = None"
  "chdir_sys calm_world t from dir =
     (if dir = ''/'' \<or> dir = ''/tmp'' \<or> dir = ''/home/kid'' then Inr dir else Inl ENOENT)"
  "wordexp_sys calm_world = calm_wordexp" "fork_sys calm_world t = Inr 4242"
  "execvp_sys calm_world t program argv = Some ENOENT" "waitpid_sys calm_world t pid = Inr 0"
  "strsignal calm_world sig = (if sig = 15 then ''Terminated'' else ''Unknown signal'')"
  by (simp_all add: calm_world_def)









section \<open>Command substitution\<close>

lemma wordexp_flags_value: "wordexp_flags = 56" "WRDE_NOCMD = 4"
  by (simp_all add: wordexp_flags_def WRDE_NOCMD_def WRDE_REUSE_def WRDE_SHOWERR_def WRDE_UNDEF_def)

text \<open>
  The loop has a branch for the return code \<open>WRDE_CMDSUB\<close>: it writes
  \<open>Command line substitution is prohibited\<close> and goes on without dispatching.
\<close>

lemma cmdsub_code_is_reported:
  "wordexp_sys w (clock s) wordexp_flags (env s) (cstr (trim_newline raw)) = (WRDE_CMDSUB, wordv) \<Longrightarrow>
   process_line w raw s =
     (Continue, error 0 0 ''Command line substitution is prohibited'' (tick s))"
  by (simp add: process_line_def wordexp_def WRDE_CMDSUB_def WRDE_BADCHAR_def WRDE_BADVAL_def)

text \<open>
  With the flags of the loop, a \<^verbatim>\<open>wordexp\<close> that returns \<open>WRDE_CMDSUB\<close> only when it was
  given \<open>WRDE_NOCMD\<close> never returns it: the branch is unreachable.
\<close>

lemma cmdsub_branch_unreachable:
  assumes "\<And>t flags e l. fst (wordexp_sys w t flags e l) = WRDE_CMDSUB \<Longrightarrow>
             flags AND WRDE_NOCMD \<noteq> 0"
  shows "fst (wordexp_sys w (clock s) wordexp_flags (env s) (cstr (trim_newline raw))) \<noteq>
           WRDE_CMDSUB"
  using assms [of "clock s" wordexp_flags "env s" "cstr (trim_newline raw)"]
  by (auto simp add: wordexp_flags_value)

text \<open>
  C1 says that a line with a command substitution is rejected because \<^verbatim>\<open>wordexp\<close> is
  called with the flag that forbids it. The flags of the call are
  \<open>WRDE_REUSE | WRDE_SHOWERR | WRDE_UNDEF\<close>: the bit \<open>WRDE_NOCMD\<close> is not among them.
  A \<^verbatim>\<open>wordexp\<close> that answers \<open>WRDE_CMDSUB\<close> under \<open>WRDE_NOCMD\<close> therefore expands the line
  \<open>echo $(id -u)\<close>, and the loop launches \<open>echo\<close> with the substituted word; the
  diagnostic of the \<open>WRDE_CMDSUB\<close> branch is not written.
\<close>

theorem command_substitution_not_rejected:
  "wordexp_flags AND WRDE_NOCMD = 0 \<and>
   calm_wordexp 0 (wordexp_flags OR WRDE_NOCMD) kid_env ''echo $(id -u)'' = (WRDE_CMDSUB, []) \<and>
   calm_wordexp 0 wordexp_flags kid_env ''echo $(id -u)'' = (0, [''echo'', ''1000'']) \<and>
   process_line calm_world ''echo $(id -u)\<newline>'' s0 =
     (Continue, launch calm_world ''echo'' [''echo'', ''1000''] (tick s0)) \<and>
   stdout (snd (process_line calm_world ''echo $(id -u)\<newline>'' s0)) =
     [''Process exited with error code 0\<newline>''] \<and>
   stderr (snd (process_line calm_world ''echo $(id -u)\<newline>'' s0)) = []"
proof -
  have flags: "wordexp_flags AND WRDE_NOCMD = 0" "(wordexp_flags OR WRDE_NOCMD) AND WRDE_NOCMD \<noteq> 0"
    by (simp_all add: wordexp_flags_value)
  have line: "cstr (trim_newline ''echo $(id -u)\<newline>'') = ''echo $(id -u)''"
    by (simp add: cstr_def trim_newline_def)
  have expanded: "calm_wordexp t wordexp_flags en ''echo $(id -u)'' = (0, [''echo'', ''1000''])" for t en
    using flags(1) by (simp add: calm_wordexp_def)
  have refused: "calm_wordexp 0 (wordexp_flags OR WRDE_NOCMD) kid_env ''echo $(id -u)'' = (WRDE_CMDSUB, [])"
    using flags(2) by (simp add: calm_wordexp_def)
  have run: "process_line calm_world ''echo $(id -u)\<newline>'' s0 =
     (Continue, launch calm_world ''echo'' [''echo'', ''1000''] (tick s0))"
    by (simp add: process_line_def wordexp_def line expanded calm_world_simps dispatch_def Let_def)
  have decode: "WIFEXITED 0" "sint (WEXITSTATUS 0) = 0" "show_int 0 = ''0''"
    by (simp_all add: WIFEXITED_def WTERMSIG_def WEXITSTATUS_def show_int_def show_nat.simps)
  have child: "launch calm_world ''echo'' [''echo'', ''1000''] (tick s0) =
      printf ''Process exited with error code 0\<newline>'' (tick (tick (tick s0)))"
    by (simp add: launch_parent [of _ _ 4242 0] calm_world_simps report_def decode)
  have "stdout (tick (tick (tick s0))) = []" "stderr (tick (tick (tick s0))) = []"
    by (simp_all add: tick_def s0_def process_start_def)
  then have "stdout (snd (process_line calm_world ''echo $(id -u)\<newline>'' s0)) =
     [''Process exited with error code 0\<newline>'']"
    and "stderr (snd (process_line calm_world ''echo $(id -u)\<newline>'' s0)) = []"
    by (simp_all add: run child printf_def)
  with flags(1) refused expanded run show ?thesis
    by blast
qed

end
